theory Spec2Isabelle
  imports Complex_Main "HOL-Library.AList"
begin

section \<open>The runtime that \<open>lib/util/npm-util.js\<close> runs in\<close>

subsection \<open>Values and errors\<close>

text \<open>
  The data values the module handles: what \<open>JSON.parse\<close> can return (null, booleans,
  numbers, strings, arrays, objects) and \<open>undefined\<close>. An object is the list of its own
  enumerable properties in the order \<open>Object.keys\<close> yields them, one entry per key. Of
  a number the module observes only whether it is zero.
\<close>

datatype jsval =
    JUndefined
  | JNull
  | JBool bool
  | JNum rat
  | JStr string
  | JArr "jsval list"
  | JObj "(string \<times> jsval) list"

text \<open>A thrown error object: its \<open>name\<close> and its \<open>message\<close>.\<close>

datatype js_error = JsError (error_name: string) (error_message: string)

text \<open>\<open>Error.prototype.toString\<close>, which \<open>new Error(e)\<close> applies to its argument.\<close>

definition error_to_string :: "js_error \<Rightarrow> string" where
  "error_to_string e =
     (if error_name e = [] then error_message e
      else if error_message e = [] then error_name e
      else error_name e @ '': '' @ error_message e)"

definition new_Error :: "string \<Rightarrow> js_error" where
  "new_Error msg = JsError ''Error'' msg"

subsection \<open>Paths (POSIX)\<close>

text \<open>
  An absolute, normalised path is the list of its segments below the root; the root
  directory is the empty list. \<open>push_segment\<close> is one step of the normalisation that
  \<open>path.join\<close> and \<open>path.resolve\<close> perform: empty and \<open>.\<close> segments vanish, \<open>..\<close> drops
  a segment and stays at the root.
\<close>

type_synonym path = "string list"

fun split_path :: "string \<Rightarrow> string list" where
  "split_path [] = [[]]"
| "split_path (c # cs) =
     (if c = CHR ''/'' then [] # split_path cs
      else (case split_path cs of [] \<Rightarrow> [[c]] | s # ss \<Rightarrow> (c # s) # ss))"

definition push_segment :: "string \<Rightarrow> path \<Rightarrow> path" where
  "push_segment seg dir =
     (if seg = [] \<or> seg = ''.'' then dir
      else if seg = ''..'' then butlast dir
      else dir @ [seg])"

definition is_absolute :: "string \<Rightarrow> bool" where
  "is_absolute s = (case s of [] \<Rightarrow> False | c # _ \<Rightarrow> c = CHR ''/'')"

text \<open>\<open>path.join(dir, s)\<close> for a relative \<open>s\<close>, and \<open>path.resolve(dir, s)\<close>.\<close>

definition path_join :: "path \<Rightarrow> string \<Rightarrow> path" where
  "path_join dir s = fold push_segment (split_path s) dir"

definition path_resolve_in :: "path \<Rightarrow> string \<Rightarrow> path" where
  "path_resolve_in dir s =
     (if is_absolute s then fold push_segment (split_path s) []
      else fold push_segment (split_path s) dir)"

text \<open>The string of a path; it is what the module hands to its callers.\<close>

definition path_string :: "path \<Rightarrow> string" where
  "path_string p = (if p = [] then ''/'' else concat (map (\<lambda>s. CHR ''/'' # s) p))"

subsection \<open>Capabilities and effects\<close>

text \<open>
  What the module consumes from outside: the working directory (\<open>process.cwd()\<close>), the
  file test \<open>shell.test("-f", p)\<close>, \<open>fs.readFileSync(p, "utf8")\<close>, \<open>JSON.parse\<close>, and the
  identifier \<open>semver\<close>. The module neither declares nor requires \<open>semver\<close>: in its own
  scope the identifier is unbound (\<open>None\<close>), and evaluating it throws a ReferenceError.
  \<open>Some r\<close> stands for a runtime whose global scope binds it: \<open>r\<close> is the outcome of the
  call \<open>semver.satisfies()\<close>, which the module makes with no argument. The names of
  the methods of \<open>Array.prototype\<close> are the runtime's too: every edition of the
  language adds some.
\<close>

record env =
  process_cwd :: string
  shell_test_f :: "path \<Rightarrow> bool"
  fs_readFileSync :: "path \<Rightarrow> js_error + string"
  JSON_parse :: "string \<Rightarrow> js_error + jsval"
  semver_satisfies :: "(js_error + jsval) option"
  array_prototype_names :: "string list"

text \<open>Every call on the outside world is recorded, in order.\<close>

datatype event = ShellTest path | ReadFile path | LogInfo string

fun is_existence_test :: "event \<Rightarrow> bool" where
  "is_existence_test (ShellTest p) = True"
| "is_existence_test (ReadFile p) = False"
| "is_existence_test (LogInfo m) = False"

fun is_file_read :: "event \<Rightarrow> bool" where
  "is_file_read (ShellTest p) = False"
| "is_file_read (ReadFile p) = True"
| "is_file_read (LogInfo m) = False"

fun is_log :: "event \<Rightarrow> bool" where
  "is_log (ShellTest p) = False"
| "is_log (ReadFile p) = False"
| "is_log (LogInfo m) = True"

section \<open>\<open>findPackageJson\<close>\<close>

text \<open>\<open>path.resolve(startDir || process.cwd())\<close>: an empty string is falsy.\<close>

definition start_directory :: "env \<Rightarrow> string option \<Rightarrow> path" where
  "start_directory env startDir =
     path_resolve_in (fold push_segment (split_path (process_cwd env)) [])
       (case startDir of
          None \<Rightarrow> process_cwd env
        | Some s \<Rightarrow> if s \<noteq> [] then s else process_cwd env)"

text \<open>
  The \<open>do ... while\<close> loop. \<open>continue\<close> jumps to the loop condition, which is
  evaluated on the directory already moved to its parent.
\<close>

function findPackageJson_loop :: "env \<Rightarrow> path \<Rightarrow> path option \<times> event list" where
  "findPackageJson_loop env dir =
     (if \<not> shell_test_f env (path_join dir ''package.json'') then
        (if path_join dir ''..'' \<noteq> path_resolve_in (path_join dir ''..'') ''..'' then
           (case findPackageJson_loop env (path_join dir ''..'') of
              (r, t) \<Rightarrow> (r, ShellTest (path_join dir ''package.json'') # t))
         else (None, [ShellTest (path_join dir ''package.json'')]))
      else (Some (path_join dir ''package.json''),
            [ShellTest (path_join dir ''package.json'')]))"
  by pat_completeness auto
termination
proof (relation "measure (\<lambda>(env, dir). length dir)")
  show "wf (measure (\<lambda>(env :: env, dir :: path). length dir))" by simp
next
  fix env :: env and dir :: path
  assume "path_join dir ''..'' \<noteq> path_resolve_in (path_join dir ''..'') ''..''"
  then have "dir \<noteq> []"
    by (auto simp: path_join_def path_resolve_in_def is_absolute_def push_segment_def)
  then show "((env, path_join dir ''..''), (env, dir)) \<in> measure (\<lambda>(env, dir). length dir)"
    by (simp add: path_join_def push_segment_def)
qed

declare findPackageJson_loop.simps [simp del]

definition findPackageJson :: "env \<Rightarrow> string option \<Rightarrow> path option \<times> event list" where
  "findPackageJson env startDir = findPackageJson_loop env (start_directory env startDir)"

section \<open>\<open>checkPackageJson\<close>\<close>

text \<open>\<open>!!findPackageJson(startDir)\<close>: \<open>null\<close> is falsy, a string is truthy unless empty.\<close>

definition checkPackageJson :: "env \<Rightarrow> string option \<Rightarrow> bool \<times> event list" where
  "checkPackageJson env startDir =
     (case findPackageJson env startDir of
        (r, t) \<Rightarrow> ((case r of None \<Rightarrow> False | Some p \<Rightarrow> path_string p \<noteq> []), t))"

section \<open>Objects\<close>

text \<open>
  A property read yields a data value or reaches a built-in object of the runtime (a
  method of \<open>Object.prototype\<close> or \<open>Array.prototype\<close>, or \<open>Object.prototype\<close> itself),
  which is truthy.
\<close>

datatype property = Data jsval | BuiltIn string

text \<open>
  The prototype of an object the module creates with \<open>{}\<close>: \<open>Object.prototype\<close>, until
  an assignment to \<open>__proto__\<close> replaces it by \<open>null\<close> or by a parsed object or array.
\<close>

datatype prototype = ObjectPrototype | ProtoNull | ProtoValue jsval

record js_object =
  props :: "(string \<times> jsval) list"
  proto :: prototype

definition empty_object :: js_object where
  "empty_object = \<lparr>props = [], proto = ObjectPrototype\<rparr>"

fun truthy :: "jsval \<Rightarrow> bool" where
  "truthy JUndefined = False"
| "truthy JNull = False"
| "truthy (JBool b) = b"
| "truthy (JNum n) = (n \<noteq> 0)"
| "truthy (JStr s) = (s \<noteq> [])"
| "truthy (JArr xs) = True"
| "truthy (JObj kvs) = True"

fun typeof :: "jsval \<Rightarrow> string" where
  "typeof JUndefined = ''undefined''"
| "typeof JNull = ''object''"
| "typeof (JBool b) = ''boolean''"
| "typeof (JNum n) = ''number''"
| "typeof (JStr s) = ''string''"
| "typeof (JArr xs) = ''object''"
| "typeof (JObj kvs) = ''object''"

text \<open>The decimal string of an array index.\<close>

fun nat_to_string :: "nat \<Rightarrow> string" where
  "nat_to_string n =
     (if n < 10 then [''0123456789'' ! n]
      else nat_to_string (n div 10) @ [''0123456789'' ! (n mod 10)])"

declare nat_to_string.simps [simp del]

text \<open>
  The own enumerable properties of a value, which \<open>Object.assign\<close> copies from a
  source: the entries of an object, the elements of an array under their indices, the
  characters of a string; \<open>null\<close>, \<open>undefined\<close>, numbers and booleans have none.
\<close>

fun own_entries :: "jsval \<Rightarrow> (string \<times> jsval) list" where
  "own_entries (JObj kvs) = kvs"
| "own_entries (JArr xs) = zip (map nat_to_string [0..<length xs]) xs"
| "own_entries (JStr s) = zip (map nat_to_string [0..<length s]) (map (\<lambda>c. JStr [c]) s)"
| "own_entries JUndefined = []"
| "own_entries JNull = []"
| "own_entries (JBool b) = []"
| "own_entries (JNum n) = []"

text \<open>
  The methods of \<open>Object.prototype\<close> (those of the standard and of its Annex B, the
  same in every edition).
\<close>

definition object_prototype_names :: "string list" where
  "object_prototype_names =
     [''constructor'', ''hasOwnProperty'', ''isPrototypeOf'', ''propertyIsEnumerable'',
      ''toLocaleString'', ''toString'', ''valueOf'', ''__defineGetter__'',
      ''__defineSetter__'', ''__lookupGetter__'', ''__lookupSetter__'']"

text \<open>
  A read that reaches \<open>Object.prototype\<close>: the accessor \<open>__proto__\<close> returns the
  prototype of the object the read started from.
\<close>

definition object_prototype_get :: "prototype \<Rightarrow> string \<Rightarrow> property" where
  "object_prototype_get p k =
     (if k = ''__proto__'' then
        (case p of ProtoValue v \<Rightarrow> Data v | _ \<Rightarrow> BuiltIn ''Object.prototype'')
      else if k \<in> set object_prototype_names then BuiltIn k
      else Data JUndefined)"

text \<open>
  A read that goes up the prototype chain, \<open>array_methods\<close> being the names of the
  methods of the runtime's \<open>Array.prototype\<close>.
\<close>

definition inherited_get :: "string list \<Rightarrow> prototype \<Rightarrow> string \<Rightarrow> property" where
  "inherited_get array_methods p k =
     (case p of
        ObjectPrototype \<Rightarrow> object_prototype_get p k
      | ProtoNull \<Rightarrow> Data JUndefined
      | ProtoValue v \<Rightarrow>
          (case v of
             JObj kvs \<Rightarrow>
               (case map_of kvs k of Some w \<Rightarrow> Data w | None \<Rightarrow> object_prototype_get p k)
           | JArr xs \<Rightarrow>
               (if k = ''length'' then Data (JNum (of_nat (length xs)))
                else
                  (case find (\<lambda>i. nat_to_string i = k) [0..<length xs] of
                     Some i \<Rightarrow> Data (xs ! i)
                   | None \<Rightarrow>
                       if k \<in> set array_methods then BuiltIn k
                       else object_prototype_get p k))
           | _ \<Rightarrow> Data JUndefined))"

text \<open>\<open>obj[k]\<close>: the own property, else what the prototype chain gives.\<close>

definition js_get :: "env \<Rightarrow> js_object \<Rightarrow> string \<Rightarrow> property" where
  "js_get env obj k =
     (case map_of (props obj) k of
        Some v \<Rightarrow> Data v
      | None \<Rightarrow> inherited_get (array_prototype_names env) (proto obj) k)"

text \<open>
  Whether an assignment to \<open>__proto__\<close> reaches the accessor of \<open>Object.prototype\<close>: not
  below a \<open>null\<close> prototype, and not when a parsed object on the chain has a data property
  of that name (\<open>JSON.parse\<close> creates one).
\<close>

definition reaches_proto_accessor :: "prototype \<Rightarrow> bool" where
  "reaches_proto_accessor p =
     (case p of
        ObjectPrototype \<Rightarrow> True
      | ProtoNull \<Rightarrow> False
      | ProtoValue v \<Rightarrow>
          (case v of JObj kvs \<Rightarrow> map_of kvs ''__proto__'' = None | _ \<Rightarrow> True))"

text \<open>
  \<open>obj[k] = v\<close>. An own property is updated in place, a new one is added last. The
  setter of \<open>__proto__\<close> replaces the prototype when \<open>v\<close> is an object or \<open>null\<close> and does
  nothing otherwise; it never creates a property.
\<close>

definition js_set :: "js_object \<Rightarrow> string \<Rightarrow> jsval \<Rightarrow> js_object" where
  "js_set obj k v =
     (if k = ''__proto__'' \<and> map_of (props obj) k = None \<and> reaches_proto_accessor (proto obj)
      then
        (case v of
           JNull \<Rightarrow> obj\<lparr>proto := ProtoNull\<rparr>
         | JArr xs \<Rightarrow> obj\<lparr>proto := ProtoValue v\<rparr>
         | JObj kvs \<Rightarrow> obj\<lparr>proto := ProtoValue v\<rparr>
         | _ \<Rightarrow> obj)
      else obj\<lparr>props := AList.update k v (props obj)\<rparr>)"

definition Object_assign :: "js_object \<Rightarrow> jsval \<Rightarrow> js_object" where
  "Object_assign target source = fold (\<lambda>(k, v) obj. js_set obj k v) (own_entries source) target"

section \<open>\<open>check\<close>\<close>

record opt =
  dependencies :: bool
  devDependencies :: bool
  startDir :: "string option"

datatype scope_field = DevDependencies | Dependencies

fun field_name :: "scope_field \<Rightarrow> string" where
  "field_name DevDependencies = ''devDependencies''"
| "field_name Dependencies = ''dependencies''"

text \<open>
  \<open>fileJson.devDependencies\<close> and \<open>fileJson.dependencies\<close>. Reading a property of \<open>null\<close>
  throws; no built-in prototype defines either name, so on anything but an object with
  the property the read gives \<open>undefined\<close>.
\<close>

definition manifest_field :: "jsval \<Rightarrow> scope_field \<Rightarrow> js_error + jsval" where
  "manifest_field fileJson f =
     (case fileJson of
        JNull \<Rightarrow>
          Inl (JsError ''TypeError''
                 (''Cannot read property '' @ [CHR 0x27] @ field_name f @ [CHR 0x27] @ '' of null''))
      | JUndefined \<Rightarrow>
          Inl (JsError ''TypeError''
                 (''Cannot read property '' @ [CHR 0x27] @ field_name f @ [CHR 0x27]
                    @ '' of undefined''))
      | JObj kvs \<Rightarrow> Inr (case map_of kvs (field_name f) of Some v \<Rightarrow> v | None \<Rightarrow> JUndefined)
      | _ \<Rightarrow> Inr JUndefined)"

text \<open>
  One of the two statements
  \<open>if (opt.f && typeof fileJson.f === "object") { Object.assign(deps, fileJson.f); }\<close>
\<close>

definition merge_field :: "bool \<Rightarrow> jsval \<Rightarrow> scope_field \<Rightarrow> js_object \<Rightarrow> js_error + js_object" where
  "merge_field requested fileJson f deps =
     (if requested then
        (case manifest_field fileJson f of
           Inl e \<Rightarrow> Inl e
         | Inr v \<Rightarrow> Inr (if typeof v = ''object'' then Object_assign deps v else deps))
      else Inr deps)"

text \<open>Lines 86 to 91: development dependencies first, direct dependencies second.\<close>

definition merge_deps :: "opt \<Rightarrow> jsval \<Rightarrow> js_error + js_object" where
  "merge_deps opts fileJson =
     (case merge_field (devDependencies opts) fileJson DevDependencies empty_object of
        Inl e \<Rightarrow> Inl e
      | Inr deps \<Rightarrow> merge_field (dependencies opts) fileJson Dependencies deps)"

text \<open>Evaluating \<open>semver.satisfies()\<close>.\<close>

definition eval_semver_satisfies :: "env \<Rightarrow> js_error + jsval" where
  "eval_semver_satisfies env =
     (case semver_satisfies env of
        None \<Rightarrow> Inl (JsError ''ReferenceError'' ''semver is not defined'')
      | Some r \<Rightarrow> r)"

text \<open>
  \<open>deps[pkg] && semver.satisfies()\<close>: the left operand itself when it is falsy, the right
  one otherwise.
\<close>

definition satisfaction :: "env \<Rightarrow> js_object \<Rightarrow> string \<Rightarrow> js_error + jsval" where
  "satisfaction env deps pkg =
     (case js_get env deps pkg of
        Data d \<Rightarrow> if truthy d then eval_semver_satisfies env else Inr d
      | BuiltIn b \<Rightarrow> eval_semver_satisfies env)"

text \<open>The \<open>reduce\<close> over \<open>Object.keys(packages)\<close>, from the accumulator \<open>status\<close>.\<close>

fun reduce_status :: "env \<Rightarrow> js_object \<Rightarrow> js_object \<Rightarrow> string list \<Rightarrow> js_error + js_object" where
  "reduce_status env deps status [] = Inr status"
| "reduce_status env deps status (pkg # pkgs) =
     (case satisfaction env deps pkg of
        Inl e \<Rightarrow> Inl e
      | Inr v \<Rightarrow> reduce_status env deps (js_set status pkg v) pkgs)"

text \<open>\<open>JSON.parse(fs.readFileSync(pkgJson, "utf8"))\<close>\<close>

definition read_manifest :: "env \<Rightarrow> path \<Rightarrow> js_error + jsval" where
  "read_manifest env pkgJson =
     (case fs_readFileSync env pkgJson of
        Inl e \<Rightarrow> Inl e
      | Inr content \<Rightarrow> JSON_parse env content)"

definition not_found_message :: string where
  "not_found_message =
     ''Could not find a package.json file. Run '' @ [CHR 0x27] @ ''npm init'' @ [CHR 0x27]
       @ '' to create one.''"

definition invalid_json_message :: string where
  "invalid_json_message =
     ''Could not read package.json file. Please check that the file contains valid JSON.''"

text \<open>
  \<open>check(packages, opt)\<close>: the result, or the error thrown, and the calls made on the
  outside world. \<open>packages\<close> is the requested object, from package name to range; \<open>opt\<close> is
  \<open>None\<close> when the argument is \<open>undefined\<close>.
\<close>

definition check :: "env \<Rightarrow> (string \<times> string) list \<Rightarrow> opt option \<Rightarrow> (js_error + js_object) \<times> event list" where
  "check env packages opt =
     (case (case opt of None \<Rightarrow> findPackageJson env None
                      | Some opts \<Rightarrow> findPackageJson env (startDir opts)) of
        (None, t) \<Rightarrow> (Inl (new_Error not_found_message), t)
      | (Some pkgJson, t) \<Rightarrow>
          (case read_manifest env pkgJson of
             Inl e \<Rightarrow>
               (Inl (new_Error (error_to_string e)),
                t @ [ReadFile pkgJson, LogInfo invalid_json_message])
           | Inr fileJson \<Rightarrow>
               (case opt of
                  None \<Rightarrow>
                    (Inl (JsError ''TypeError''
                            (''Cannot read property '' @ [CHR 0x27] @ ''devDependencies''
                               @ [CHR 0x27] @ '' of undefined'')),
                     t @ [ReadFile pkgJson])
                | Some opts \<Rightarrow>
                    (case merge_deps opts fileJson of
                       Inl e \<Rightarrow> (Inl e, t @ [ReadFile pkgJson])
                     | Inr deps \<Rightarrow>
                         (reduce_status env deps empty_object (map fst packages),
                          t @ [ReadFile pkgJson])))))"

definition checkDeps :: "env \<Rightarrow> (string \<times> string) list \<Rightarrow> string option \<Rightarrow> (js_error + js_object) \<times> event list" where
  "checkDeps env packages rootDir =
     check env packages (Some \<lparr>dependencies = True, devDependencies = False, startDir = rootDir\<rparr>)"

definition checkDevDeps :: "env \<Rightarrow> (string \<times> string) list \<Rightarrow> (js_error + js_object) \<times> event list" where
  "checkDevDeps env packages =
     check env packages (Some \<lparr>dependencies = False, devDependencies = True, startDir = None\<rparr>)"

section \<open>Notions the statements use\<close>

text \<open>A directory and the directories above it, up to and including the root.\<close>

fun ancestors :: "path \<Rightarrow> path list" where
  "ancestors dir = (if dir = [] then [dir] else dir # ancestors (butlast dir))"

declare ancestors.simps [simp del]

text \<open>
  The depth of a directory: the number of directories from it up to and including the
  root, each of which a search up to the root tests once.
\<close>

definition depth :: "path \<Rightarrow> nat" where
  "depth dir = length (ancestors dir)"

text \<open>
  The directories whose manifest the loop tests: the starting directory and those above
  it, the root left out unless the search starts there.
\<close>

fun searched :: "path \<Rightarrow> path list" where
  "searched dir = (if dir = [] \<or> butlast dir = [] then [dir] else dir # searched (butlast dir))"

declare searched.simps [simp del]

text \<open>
  The entries a field of the manifest contributes to the merge (those of a value whose
  \<open>typeof\<close> is \<open>"object"\<close>), and the range the field declares for a package name: that of
  the entry written last, should a list repeat a key.
\<close>

definition field_entries :: "jsval \<Rightarrow> scope_field \<Rightarrow> (string \<times> jsval) list" where
  "field_entries fileJson f =
     (case manifest_field fileJson f of
        Inl e \<Rightarrow> []
      | Inr v \<Rightarrow> if typeof v = ''object'' then own_entries v else [])"

definition declared :: "jsval \<Rightarrow> scope_field \<Rightarrow> string \<Rightarrow> jsval option" where
  "declared fileJson f k = map_of (rev (field_entries fileJson f)) k"

text \<open>A scope selection with one of the two scopes not requested.\<close>

fun without :: "scope_field \<Rightarrow> opt \<Rightarrow> opt" where
  "without DevDependencies opts = opts\<lparr>devDependencies := False\<rparr>"
| "without Dependencies opts = opts\<lparr>dependencies := False\<rparr>"

section \<open>Example environments\<close>

text \<open>The methods of \<open>Array.prototype\<close> in the runtime of the examples (ECMAScript 2023).\<close>

definition example_array_methods :: "string list" where
  "example_array_methods =
     [''at'', ''concat'', ''constructor'', ''copyWithin'', ''entries'', ''every'', ''fill'',
      ''filter'', ''find'', ''findIndex'', ''findLast'', ''findLastIndex'', ''flat'',
      ''flatMap'', ''forEach'', ''includes'', ''indexOf'', ''join'', ''keys'', ''lastIndexOf'',
      ''map'', ''pop'', ''push'', ''reduce'', ''reduceRight'', ''reverse'', ''shift'', ''slice'',
      ''some'', ''sort'', ''splice'', ''toLocaleString'', ''toReversed'', ''toSorted'',
      ''toSpliced'', ''toString'', ''unshift'', ''values'', ''with'']"

text \<open>
  A file system given by the texts of its files, a \<open>JSON.parse\<close> given by the texts it
  accepts, and the binding of \<open>semver\<close>.
\<close>

definition make_env :: "string \<Rightarrow> (path \<times> string) list \<Rightarrow> (string \<times> jsval) list \<Rightarrow> (js_error + jsval) option \<Rightarrow> env" where
  "make_env cwd files parses sv =
     \<lparr>process_cwd = cwd,
      shell_test_f = (\<lambda>p. map_of files p \<noteq> None),
      fs_readFileSync =
        (\<lambda>p. case map_of files p of
               Some c \<Rightarrow> Inr c
             | None \<Rightarrow> Inl (JsError ''Error'' ''ENOENT: no such file or directory'')),
      JSON_parse =
        (\<lambda>s. case map_of parses s of
               Some v \<Rightarrow> Inr v
             | None \<Rightarrow> Inl (JsError ''SyntaxError'' ''Unexpected end of JSON input'')),
      semver_satisfies = sv,
      array_prototype_names = example_array_methods\<rparr>"

text \<open>The manifest of the specification's example, in \<open>/project\<close>.\<close>

definition example_text :: string where
  \<open>example_text = ''{"dependencies": {"a": "^1.0.0"}, "devDependencies": {"b": "^2.0.0"}}''\<close>

definition example_manifest :: jsval where
  "example_manifest =
     JObj [(''dependencies'', JObj [(''a'', JStr ''^1.0.0'')]),
           (''devDependencies'', JObj [(''b'', JStr ''^2.0.0'')])]"

definition example_env :: "(js_error + jsval) option \<Rightarrow> env" where
  "example_env sv =
     make_env ''/project'' [([''project'', ''package.json''], example_text)]
       [(example_text, example_manifest)] sv"

definition example_request :: "(string \<times> string) list" where
  "example_request = [(''a'', ''^1.0.0''), (''b'', ''^2.0.0'')]"

text \<open>A file system whose only manifest is \<open>/package.json\<close>, in the root directory.\<close>

definition root_manifest_env :: env where
  "root_manifest_env =
     make_env ''/'' [([''package.json''], example_text)] [(example_text, example_manifest)] None"

text \<open>A file system with no file at all.\<close>

definition empty_env :: env where
  "empty_env = make_env ''/'' [] [] None"

text \<open>A manifest cut off in the middle, and one with a package in both fields.\<close>

definition truncated_env :: env where
  \<open>truncated_env =
     make_env ''/project'' [([''project'', ''package.json''], ''{"dependencies": {'')] [] None\<close>

definition collision_manifest :: jsval where
  "collision_manifest =
     JObj [(''dependencies'', JObj [(''a'', JStr ''^1.0.0'')]),
           (''devDependencies'', JObj [(''a'', JStr ''^3.0.0''), (''b'', JStr ''^2.0.0'')])]"

text \<open>A manifest whose \<open>devDependencies\<close> is a string.\<close>

definition malformed_manifest :: jsval where
  "malformed_manifest =
     JObj [(''dependencies'', JObj [(''a'', JStr ''^1.0.0'')]),
           (''devDependencies'', JStr ''none'')]"

text \<open>The same manifest on disk, and the scope selection that requests both scopes.\<close>

definition malformed_text :: string where
  \<open>malformed_text = ''{"dependencies": {"a": "^1.0.0"}, "devDependencies": "none"}''\<close>

definition malformed_env :: env where
  "malformed_env =
     make_env ''/project'' [([''project'', ''package.json''], malformed_text)]
       [(malformed_text, malformed_manifest)] None"

definition both_scopes :: opt where
  "both_scopes = \<lparr>dependencies = True, devDependencies = True, startDir = None\<rparr>"

section \<open>Paths and the upward search\<close>

lemma path_join_parent [simp]: "path_join dir ''..'' = butlast dir"
  by (simp add: path_join_def push_segment_def)

lemma path_resolve_in_parent [simp]: "path_resolve_in dir ''..'' = butlast dir"
  by (simp add: path_resolve_in_def is_absolute_def push_segment_def)

lemma path_join_package_json [simp]:
  "path_join dir ''package.json'' = dir @ [''package.json'']"
  by (simp add: path_join_def push_segment_def)

lemma butlast_fixed [simp]: "(butlast xs = xs) = (xs = [])"
proof
  assume "butlast xs = xs"
  then have "length xs - 1 = length xs" by (metis length_butlast)
  then show "xs = []" by (cases xs) simp_all
qed simp

lemma butlast_fixed' [simp]: "(xs = butlast xs) = (xs = [])"
  using butlast_fixed [of xs] by (auto simp del: butlast_fixed)

text \<open>
  One pass of the loop: the test of \<open>dir/package.json\<close>; on failure the search goes on
  from the parent only if that parent is not the root.
\<close>

lemma loop_unfold:
  "findPackageJson_loop env dir =
     (if shell_test_f env (dir @ [''package.json''])
      then (Some (dir @ [''package.json'']), [ShellTest (dir @ [''package.json''])])
      else if butlast dir = [] then (None, [ShellTest (dir @ [''package.json''])])
      else (fst (findPackageJson_loop env (butlast dir)),
            ShellTest (dir @ [''package.json'']) # snd (findPackageJson_loop env (butlast dir))))"
  by (subst findPackageJson_loop.simps) (auto simp: split_def)

lemma loop_trace_length: "length (snd (findPackageJson_loop env dir)) \<le> max 1 (length dir)"
proof (induction env dir rule: findPackageJson_loop.induct)
  case (1 env dir)
  show ?case
  proof (cases "\<not> shell_test_f env (dir @ [''package.json'']) \<and> butlast dir \<noteq> []")
    case True
    then have "length (snd (findPackageJson_loop env (butlast dir))) \<le> max 1 (length (butlast dir))"
      using "1.IH" by simp
    moreover have "2 \<le> length dir"
      using True by (cases dir) (auto split: if_splits simp: Suc_le_eq)
    ultimately show ?thesis using True by (subst loop_unfold) auto
  next
    case False
    then show ?thesis by (subst loop_unfold) auto
  qed
qed

lemma loop_trace_tests: "list_all is_existence_test (snd (findPackageJson_loop env dir))"
proof (induction env dir rule: findPackageJson_loop.induct)
  case (1 env dir)
  show ?case
  proof (cases "\<not> shell_test_f env (dir @ [''package.json'']) \<and> butlast dir \<noteq> []")
    case True
    then show ?thesis using "1.IH" by (subst loop_unfold) auto
  next
    case False
    then show ?thesis by (subst loop_unfold) auto
  qed
qed

lemma loop_none:
  "list_all (\<lambda>d. \<not> shell_test_f env (path_join d ''package.json'')) (ancestors dir)
   \<Longrightarrow> fst (findPackageJson_loop env dir) = None"
proof (induction env dir rule: findPackageJson_loop.induct)
  case (1 env dir)
  from "1.prems" have here: "\<not> shell_test_f env (dir @ [''package.json''])"
    by (subst (asm) ancestors.simps) (auto split: if_splits)
  show ?case
  proof (cases "butlast dir = []")
    case True
    with here show ?thesis by (subst loop_unfold) simp
  next
    case False
    then have "dir \<noteq> []" by auto
    with "1.prems"
    have "list_all (\<lambda>d. \<not> shell_test_f env (path_join d ''package.json'')) (ancestors (butlast dir))"
      by (subst (asm) ancestors.simps) simp
    with here False "1.IH" have "fst (findPackageJson_loop env (butlast dir)) = None" by simp
    with here False show ?thesis by (subst loop_unfold) simp
  qed
qed

lemma loop_trace_nonempty: "snd (findPackageJson_loop env dir) \<noteq> []"
  by (subst loop_unfold) simp

text \<open>
  A search that fails gives up right after testing a directory whose parent, the next
  candidate, is its own parent.
\<close>

lemma loop_gives_up:
  "fst (findPackageJson_loop env dir) = None \<Longrightarrow>
   \<exists>d. last (snd (findPackageJson_loop env dir)) = ShellTest (path_join d ''package.json'')
       \<and> path_join d ''..'' = path_resolve_in (path_join d ''..'') ''..''"
proof (induction env dir rule: findPackageJson_loop.induct)
  case (1 env dir)
  have here: "\<not> shell_test_f env (dir @ [''package.json''])"
    using "1.prems" by (subst (asm) loop_unfold) (auto split: if_splits)
  show ?case
  proof (cases "butlast dir = []")
    case True
    with here have "last (snd (findPackageJson_loop env dir)) = ShellTest (path_join dir ''package.json'')"
      by (subst loop_unfold) simp
    moreover from True have "path_join dir ''..'' = path_resolve_in (path_join dir ''..'') ''..''"
      by simp
    ultimately show ?thesis by blast
  next
    case False
    with here "1.prems" have "fst (findPackageJson_loop env (butlast dir)) = None"
      by (subst (asm) loop_unfold) simp
    with here False "1.IH" obtain d where
      d: "last (snd (findPackageJson_loop env (butlast dir))) = ShellTest (path_join d ''package.json'')"
        "path_join d ''..'' = path_resolve_in (path_join d ''..'') ''..''"
      by auto
    have "last (snd (findPackageJson_loop env dir)) = last (snd (findPackageJson_loop env (butlast dir)))"
      using here False loop_trace_nonempty [of env "butlast dir"] by (subst loop_unfold) simp
    with d show ?thesis by metis
  qed
qed

text \<open>What the search returns: the manifest of the nearest directory it tests.\<close>

lemma loop_searched:
  "fst (findPackageJson_loop env dir) =
     map_option (\<lambda>d. path_join d ''package.json'')
       (find (\<lambda>d. shell_test_f env (path_join d ''package.json'')) (searched dir))"
proof (induction env dir rule: findPackageJson_loop.induct)
  case (1 env dir)
  show ?case
  proof (cases "\<not> shell_test_f env (dir @ [''package.json'']) \<and> butlast dir \<noteq> []")
    case True
    then show ?thesis using "1.IH"
      by (subst loop_unfold, subst searched.simps) auto
  next
    case False
    then show ?thesis by (subst loop_unfold, subst searched.simps) auto
  qed
qed

lemma path_string_nonempty: "path_string p \<noteq> []"
  by (cases p) (auto simp: path_string_def)

lemma findPackageJson_trace_tests:
  "list_all is_existence_test (snd (findPackageJson env start))"
  by (simp add: findPackageJson_def loop_trace_tests)

lemma tests_only:
  "list_all is_existence_test t \<Longrightarrow> filter is_log t = [] \<and> filter is_file_read t = []"
proof (induction t)
  case Nil
  then show ?case by simp
next
  case (Cons ev t)
  then show ?case by (cases ev) auto
qed

lemmas example_path_simps =
  findPackageJson_def start_directory_def make_env_def loop_unfold
  path_resolve_in_def is_absolute_def push_segment_def

text \<open>
  Claim C6: for every directory D that has a manifest at some ancestor (D included),
  the search from D returns the manifest of the nearest such ancestor. The loop
  condition is evaluated on the parent before that parent is tested, so a manifest in
  the root directory is found only by a search that starts in the root: from \<open>/a\<close>, with
  \<open>/package.json\<close> the only manifest, the search tests \<open>/a/package.json\<close> alone and
  returns \<open>null\<close>.
\<close>

theorem findPackageJson_skips_root:
  "findPackageJson root_manifest_env (Some ''/a'') = (None, [ShellTest [''a'', ''package.json'']])
   \<and> shell_test_f root_manifest_env (path_join [] ''package.json'')
   \<and> [] \<in> set (ancestors (start_directory root_manifest_env (Some ''/a'')))"
  by (simp add: example_path_simps root_manifest_env_def ancestors.simps)

lemma length_ancestors: "length (ancestors dir) = Suc (length dir)"
proof (induction dir rule: rev_induct)
  case Nil
  show ?case by (subst ancestors.simps) simp
next
  case (snoc x xs)
  then show ?case by (subst ancestors.simps) simp
qed

text \<open>
  Claim C7: the search from D ends after at most (depth of D) passes of the loop, each
  making one existence test, the depth of D being the number of directories from D up
  to and including the root; a search that fails stops when the candidate directory
  equals its own parent; and if no directory from D up to and including the root holds
  a manifest, the search returns \<open>null\<close>. That the search ends at all is the
  termination of \<open>findPackageJson_loop\<close>.
\<close>

theorem findPackageJson_bounded:
  "length (snd (findPackageJson env start)) \<le> depth (start_directory env start)
   \<and> (fst (findPackageJson env start) = None \<longrightarrow>
        (\<exists>d. last (snd (findPackageJson env start)) = ShellTest (path_join d ''package.json'')
           \<and> path_join d ''..'' = path_resolve_in (path_join d ''..'') ''..''))
   \<and> (list_all (\<lambda>d. \<not> shell_test_f env (path_join d ''package.json''))
         (ancestors (start_directory env start))
       \<longrightarrow> fst (findPackageJson env start) = None)"
proof -
  have "length (snd (findPackageJson env start)) \<le> max 1 (length (start_directory env start))"
    using loop_trace_length [of env "start_directory env start"]
    by (simp add: findPackageJson_def)
  then have "length (snd (findPackageJson env start)) \<le> depth (start_directory env start)"
    by (simp add: depth_def length_ancestors)
  with loop_none [of env "start_directory env start"]
    loop_gives_up [of env "start_directory env start"]
  show ?thesis by (simp add: findPackageJson_def)
qed

theorem findPackageJson_bounded_witness:
  "length (snd (findPackageJson empty_env (Some ''/a/b'')))
     \<le> depth (start_directory empty_env (Some ''/a/b''))
   \<and> depth (start_directory empty_env (Some ''/a/b'')) = 3
   \<and> list_all (\<lambda>d. \<not> shell_test_f empty_env (path_join d ''package.json''))
        (ancestors (start_directory empty_env (Some ''/a/b'')))
   \<and> fst (findPackageJson empty_env (Some ''/a/b'')) = None
   \<and> snd (findPackageJson empty_env (Some ''/a/b'')) =
       [ShellTest [''a'', ''b'', ''package.json''], ShellTest [''a'', ''package.json'']]"
proof -
  have h: "list_all (\<lambda>d. \<not> shell_test_f empty_env (path_join d ''package.json''))
             (ancestors (start_directory empty_env (Some ''/a/b'')))"
    by (simp add: empty_env_def make_env_def list_all_iff)
  have n: "snd (findPackageJson empty_env (Some ''/a/b'')) =
       [ShellTest [''a'', ''b'', ''package.json''], ShellTest [''a'', ''package.json'']]"
    by (simp add: example_path_simps empty_env_def)
  have d: "depth (start_directory empty_env (Some ''/a/b'')) = 3"
    by (simp add: depth_def length_ancestors example_path_simps empty_env_def)
  from h n d findPackageJson_bounded [of empty_env "Some ''/a/b''"] show ?thesis by blast
qed

text \<open>
  Claim C8: \<open>checkPackageJson(dir)\<close> is true exactly when \<open>findPackageJson(dir)\<close>
  returns a path, and both only make existence tests: they read no file and log
  nothing.
\<close>

theorem checkPackageJson_iff_found:
  "fst (checkPackageJson env start) = (fst (findPackageJson env start) \<noteq> None)
   \<and> list_all is_existence_test (snd (checkPackageJson env start))
   \<and> list_all is_existence_test (snd (findPackageJson env start))"
proof -
  have s: "snd (checkPackageJson env start) = snd (findPackageJson env start)"
    by (simp add: checkPackageJson_def split: prod.splits)
  have r: "fst (checkPackageJson env start) = (fst (findPackageJson env start) \<noteq> None)"
    by (simp add: checkPackageJson_def path_string_nonempty split: prod.splits option.splits)
  from findPackageJson_trace_tests [of env start] s r show ?thesis by simp
qed

section \<open>Objects and the merge\<close>

lemma map_of_js_set:
  "k \<noteq> ''__proto__'' \<Longrightarrow>
   map_of (props (js_set obj k' v)) k = (if k' = k then Some v else map_of (props obj) k)"
  by (auto simp: js_set_def update_conv' split: jsval.splits)

lemma map_of_fold_js_set:
  "k \<noteq> ''__proto__'' \<Longrightarrow>
   map_of (props (fold (\<lambda>(k, v) obj. js_set obj k v) es obj)) k =
     (case map_of (rev es) k of Some v \<Rightarrow> Some v | None \<Rightarrow> map_of (props obj) k)"
proof (induction es arbitrary: obj)
  case Nil
  then show ?case by simp
next
  case (Cons e es)
  obtain k' v where e: "e = (k', v)" by (cases e)
  show ?case
    using Cons.prems Cons.IH [OF Cons.prems, of "js_set obj k' v"]
    by (auto simp: e map_of_js_set map_add_def split: option.splits)
qed

lemma map_of_merge_field:
  assumes "merge_field requested fileJson f deps = Inr deps'" and "k \<noteq> ''__proto__''"
  shows "map_of (props deps') k =
     (if requested \<and> declared fileJson f k \<noteq> None then declared fileJson f k
      else map_of (props deps) k)"
  using assms
  by (auto simp: merge_field_def declared_def field_entries_def Object_assign_def
      map_of_fold_js_set split: if_splits sum.splits option.splits)

lemma manifest_field_other:
  "manifest_field fileJson f = Inr v \<Longrightarrow> \<exists>w. manifest_field fileJson g = Inr w"
  by (cases fileJson) (auto simp: manifest_field_def)

lemma merge_field_skips:
  "manifest_field fileJson f = Inr v \<Longrightarrow> typeof v \<noteq> ''object'' \<Longrightarrow>
   merge_field requested fileJson f deps = Inr deps"
  by (simp add: merge_field_def)

lemma merge_field_defined:
  "manifest_field fileJson g = Inr w \<Longrightarrow>
   \<exists>deps'. merge_field requested fileJson f deps = Inr deps'"
  using manifest_field_other [of fileJson g w f]
  by (auto simp: merge_field_def)

lemma props_js_set_keys:
  "k \<noteq> ''__proto__'' \<Longrightarrow>
   map fst (props (js_set obj k v)) =
     (if k \<in> set (map fst (props obj)) then map fst (props obj) else map fst (props obj) @ [k])"
  by (simp add: js_set_def update_keys)

lemma reduce_status_keys:
  "reduce_status env deps status pkgs = Inr report \<Longrightarrow> distinct pkgs \<Longrightarrow>
   ''__proto__'' \<notin> set pkgs \<Longrightarrow> set pkgs \<inter> set (map fst (props status)) = {} \<Longrightarrow>
   map fst (props report) = map fst (props status) @ pkgs"
proof (induction pkgs arbitrary: status)
  case Nil
  then show ?case by simp
next
  case (Cons pkg pkgs)
  from Cons.prems(1) obtain v where
    v: "satisfaction env deps pkg = Inr v" and
    r: "reduce_status env deps (js_set status pkg v) pkgs = Inr report"
    by (auto split: sum.splits)
  have pk: "pkg \<noteq> ''__proto__''" using Cons.prems(3) by auto
  have keys: "map fst (props (js_set status pkg v)) = map fst (props status) @ [pkg]"
    using Cons.prems(4) pk by (auto simp: props_js_set_keys)
  have "map fst (props report) = map fst (props (js_set status pkg v)) @ pkgs"
    using Cons.prems(2,3,4) keys by (intro Cons.IH [OF r]) auto
  with keys show ?case by simp
qed

lemmas example_check_simps =
  check_def checkDeps_def checkDevDeps_def read_manifest_def merge_deps_def merge_field_def
  manifest_field_def Object_assign_def js_set_def js_get_def inherited_get_def
  object_prototype_get_def object_prototype_names_def reaches_proto_accessor_def
  satisfaction_def eval_semver_satisfies_def empty_object_def new_Error_def
  example_env_def example_manifest_def example_request_def example_text_def
  both_scopes_def example_path_simps

section \<open>\<open>check\<close> and its wrappers\<close>

text \<open>
  Claim C1: \<open>check\<close> reports true for a requested package only if the merged map
  contains it and the declared range satisfies the requested one; for the manifest
  with dependencies \<open>{"a": "^1.0.0"}\<close> and devDependencies \<open>{"b": "^2.0.0"}\<close>,
  \<open>checkDeps\<close> of \<open>{"a": "^1.0.0", "b": "^2.0.0"}\<close> is \<open>{a: true, b: false}\<close> and
  \<open>checkDevDeps\<close> of it is \<open>{a: false, b: true}\<close>. The module does neither: for a
  declared package it evaluates \<open>semver.satisfies()\<close>, with \<open>semver\<close> unbound and no
  argument passed, so both calls throw a ReferenceError; and whatever a runtime binds
  \<open>semver\<close> to, neither call returns the report of the claim.
\<close>

theorem check_example_diverges:
  "fst (checkDeps (example_env None) example_request None)
     = Inl (JsError ''ReferenceError'' ''semver is not defined'')
   \<and> fst (checkDevDeps (example_env None) example_request)
     = Inl (JsError ''ReferenceError'' ''semver is not defined'')
   \<and> (\<forall>r. fst (checkDeps (example_env (Some r)) example_request None)
         \<noteq> Inr \<lparr>props = [(''a'', JBool True), (''b'', JBool False)], proto = ObjectPrototype\<rparr>)
   \<and> (\<forall>r. fst (checkDevDeps (example_env (Some r)) example_request)
         \<noteq> Inr \<lparr>props = [(''a'', JBool False), (''b'', JBool True)], proto = ObjectPrototype\<rparr>)"
proof -
  have 1: "fst (checkDeps (example_env None) example_request None)
     = Inl (JsError ''ReferenceError'' ''semver is not defined'')"
    by (simp add: example_check_simps)
  have 2: "fst (checkDevDeps (example_env None) example_request)
     = Inl (JsError ''ReferenceError'' ''semver is not defined'')"
    by (simp add: example_check_simps)
  have 3: "fst (checkDeps (example_env (Some r)) example_request None)
         \<noteq> Inr \<lparr>props = [(''a'', JBool True), (''b'', JBool False)], proto = ObjectPrototype\<rparr>" for r
    by (cases r) (simp_all add: example_check_simps)
  have 4: "fst (checkDevDeps (example_env (Some r)) example_request)
         \<noteq> Inr \<lparr>props = [(''a'', JBool False), (''b'', JBool True)], proto = ObjectPrototype\<rparr>" for r
    by (cases r) (simp_all add: example_check_simps)
  from 1 2 3 4 show ?thesis by blast
qed

text \<open>
  Claim C2: for a requested package absent from the merged map the report holds the
  value \<open>false\<close>, and no error is raised on account of the absence. For the example
  manifest and the request \<open>{"c": "^1.0.0"}\<close> no error is raised, but the value stored
  is \<open>undefined\<close>, the left operand of \<open>&&\<close>, not the boolean the module documents:
  whatever \<open>semver\<close> is bound to, \<open>checkDeps\<close> returns \<open>{c: undefined}\<close>. And a name
  that \<open>Object.prototype\<close> defines is read from the prototype of the merged map: for
  the request \<open>{"constructor": "^1.0.0"}\<close> the read is truthy and the call throws.
\<close>

theorem absent_package_undefined:
  "checkDeps (example_env sv) [(''c'', ''^1.0.0'')] None =
     (Inr \<lparr>props = [(''c'', JUndefined)], proto = ObjectPrototype\<rparr>,
      [ShellTest [''project'', ''package.json''], ReadFile [''project'', ''package.json'']])
   \<and> fst (checkDeps (example_env None) [(''constructor'', ''^1.0.0'')] None) =
       Inl (JsError ''ReferenceError'' ''semver is not defined'')"
  by (simp add: example_check_simps)

text \<open>
  Claim C3: the merged map holds entries of \<open>devDependencies\<close> only if the scope
  requests development dependencies, entries of \<open>dependencies\<close> only if it requests
  direct dependencies, and when both are requested a name declared in both resolves
  to its direct-dependency range. Stated for every package name \<open>k\<close>: the own property
  of the merged map is the range \<open>dependencies\<close> declares when that scope is requested
  and declares one, else the range \<open>devDependencies\<close> declares when that scope is
  requested, else none. (\<open>__proto__\<close> is no package name: assigning to it sets the
  prototype of the map.)
\<close>

theorem merged_scopes:
  assumes "merge_deps opts fileJson = Inr deps" and "k \<noteq> ''__proto__''"
  shows "map_of (props deps) k =
     (if dependencies opts \<and> declared fileJson Dependencies k \<noteq> None
      then declared fileJson Dependencies k
      else if devDependencies opts then declared fileJson DevDependencies k
      else None)"
proof -
  from assms(1) obtain d where
    d: "merge_field (devDependencies opts) fileJson DevDependencies empty_object = Inr d" and
    m: "merge_field (dependencies opts) fileJson Dependencies d = Inr deps"
    by (auto simp: merge_deps_def split: sum.splits)
  have "map_of (props d) k =
      (if devDependencies opts then declared fileJson DevDependencies k else None)"
    using map_of_merge_field [OF d assms(2)] by (auto simp: empty_object_def)
  with map_of_merge_field [OF m assms(2)] show ?thesis by auto
qed

theorem merged_scopes_witness:
  "merge_deps both_scopes collision_manifest =
     Inr \<lparr>props = [(''a'', JStr ''^1.0.0''), (''b'', JStr ''^2.0.0'')], proto = ObjectPrototype\<rparr>
   \<and> ''a'' \<noteq> ''__proto__''
   \<and> declared collision_manifest DevDependencies ''a'' = Some (JStr ''^3.0.0'')
   \<and> map_of (props \<lparr>props = [(''a'', JStr ''^1.0.0''), (''b'', JStr ''^2.0.0'')],
                     proto = ObjectPrototype\<rparr>) ''a''
       = declared collision_manifest Dependencies ''a''"
proof -
  have h: "merge_deps both_scopes collision_manifest =
     Inr \<lparr>props = [(''a'', JStr ''^1.0.0''), (''b'', JStr ''^2.0.0'')], proto = ObjectPrototype\<rparr>"
    by (simp add: both_scopes_def collision_manifest_def merge_deps_def merge_field_def
        manifest_field_def Object_assign_def js_set_def reaches_proto_accessor_def empty_object_def)
  have k: "''a'' \<noteq> ''__proto__''" by simp
  have d: "declared collision_manifest DevDependencies ''a'' = Some (JStr ''^3.0.0'')"
    by (simp add: declared_def field_entries_def manifest_field_def collision_manifest_def)
  have d': "declared collision_manifest Dependencies ''a'' = Some (JStr ''^1.0.0'')"
    by (simp add: declared_def field_entries_def manifest_field_def collision_manifest_def)
  from merged_scopes [OF h k] h k d d' show ?thesis by (simp add: both_scopes_def)
qed

text \<open>
  Claim C4: when the located manifest does not parse, \<open>check\<close> logs exactly one
  informational diagnostic and then throws an error that wraps the parse failure
  (\<open>new Error(e)\<close>: its message is the string of \<open>e\<close>); the file is read once, nothing
  is retried, and the error reaches the caller.
\<close>

theorem unparsable_manifest:
  assumes "findPackageJson env (startDir opts) = (Some pkgJson, t)"
    and "fs_readFileSync env pkgJson = Inr content"
    and "JSON_parse env content = Inl e"
  shows "check env packages (Some opts) =
           (Inl (new_Error (error_to_string e)),
            t @ [ReadFile pkgJson, LogInfo invalid_json_message])
     \<and> filter is_log (snd (check env packages (Some opts))) = [LogInfo invalid_json_message]
     \<and> filter is_file_read (snd (check env packages (Some opts))) = [ReadFile pkgJson]"
proof -
  have c: "check env packages (Some opts) =
           (Inl (new_Error (error_to_string e)),
            t @ [ReadFile pkgJson, LogInfo invalid_json_message])"
    using assms by (simp add: check_def read_manifest_def)
  have "list_all is_existence_test t"
    using findPackageJson_trace_tests [of env "startDir opts"] assms(1) by simp
  from tests_only [OF this] c show ?thesis by simp
qed

theorem unparsable_manifest_witness:
  \<open>findPackageJson truncated_env (startDir both_scopes) =
     (Some [''project'', ''package.json''], [ShellTest [''project'', ''package.json'']])
   \<and> fs_readFileSync truncated_env [''project'', ''package.json''] = Inr ''{"dependencies": {''
   \<and> JSON_parse truncated_env ''{"dependencies": {'' =
       Inl (JsError ''SyntaxError'' ''Unexpected end of JSON input'')
   \<and> check truncated_env example_request (Some both_scopes) =
       (Inl (JsError ''Error'' ''SyntaxError: Unexpected end of JSON input''),
        [ShellTest [''project'', ''package.json''], ReadFile [''project'', ''package.json''],
         LogInfo invalid_json_message])\<close>
proof -
  have f: "findPackageJson truncated_env (startDir both_scopes) =
     (Some [''project'', ''package.json''], [ShellTest [''project'', ''package.json'']])"
    by (simp add: example_path_simps both_scopes_def truncated_env_def)
  have r: \<open>fs_readFileSync truncated_env [''project'', ''package.json''] = Inr ''{"dependencies": {''\<close>
    by (simp add: truncated_env_def make_env_def)
  have p: \<open>JSON_parse truncated_env ''{"dependencies": {'' =
       Inl (JsError ''SyntaxError'' ''Unexpected end of JSON input'')\<close>
    by (simp add: truncated_env_def make_env_def)
  from unparsable_manifest [OF f r p, of example_request] f r p
  show ?thesis by (simp add: new_Error_def error_to_string_def)
qed

text \<open>
  Claim C5: when the upward search finds no manifest, \<open>check\<close> throws the error whose
  message is "Could not find a package.json file. Run 'npm init' to create one.",
  having made only the existence tests of the search: no file is read, nothing is
  logged, and there is no report.
\<close>

theorem no_manifest_no_read:
  assumes "fst (findPackageJson env (startDir opts)) = None"
  shows "fst (check env packages (Some opts)) =
           Inl (JsError ''Error''
                  (''Could not find a package.json file. Run '' @ [CHR 0x27] @ ''npm init''
                     @ [CHR 0x27] @ '' to create one.''))
     \<and> snd (check env packages (Some opts)) = snd (findPackageJson env (startDir opts))
     \<and> filter is_file_read (snd (check env packages (Some opts))) = []
     \<and> filter is_log (snd (check env packages (Some opts))) = []"
proof -
  obtain t where f: "findPackageJson env (startDir opts) = (None, t)"
    using assms by (cases "findPackageJson env (startDir opts)") simp
  then have c: "check env packages (Some opts) = (Inl (new_Error not_found_message), t)"
    by (simp add: check_def)
  have m: "new_Error not_found_message =
      JsError ''Error''
        (''Could not find a package.json file. Run '' @ [CHR 0x27] @ ''npm init''
           @ [CHR 0x27] @ '' to create one.'')"
    by (simp add: new_Error_def not_found_message_def)
  have "list_all is_existence_test t"
    using findPackageJson_trace_tests [of env "startDir opts"] f by simp
  from tests_only [OF this] c f m show ?thesis by simp
qed

theorem no_manifest_no_read_witness:
  "fst (findPackageJson empty_env (startDir both_scopes)) = None
   \<and> check empty_env example_request (Some both_scopes) =
       (Inl (JsError ''Error''
               (''Could not find a package.json file. Run '' @ [CHR 0x27] @ ''npm init''
                  @ [CHR 0x27] @ '' to create one.'')),
        [ShellTest [''package.json'']])"
proof -
  have f: "findPackageJson empty_env (startDir both_scopes) = (None, [ShellTest [''package.json'']])"
    by (simp add: example_path_simps both_scopes_def empty_env_def)
  then have n: "fst (findPackageJson empty_env (startDir both_scopes)) = None" by simp
  have "snd (check empty_env example_request (Some both_scopes)) = [ShellTest [''package.json'']]"
    using no_manifest_no_read [OF n, of example_request] f by simp
  with no_manifest_no_read [OF n, of example_request] n
  show ?thesis by (simp add: prod_eq_iff)
qed

text \<open>
  Claim C9: the keys of the report of a successful \<open>check\<close> are exactly the requested
  package names, in the order of the request. The request is given by its entries, one
  per key, none of them \<open>__proto__\<close> (no package name, and an assignment to it creates
  no property).
\<close>

theorem report_keys:
  assumes "fst (check env packages opt) = Inr report"
    and "distinct (map fst packages)"
    and "''__proto__'' \<notin> set (map fst packages)"
  shows "map fst (props report) = map fst packages"
proof -
  from assms(1) obtain deps where
    "reduce_status env deps empty_object (map fst packages) = Inr report"
    by (auto simp: check_def split: prod.splits option.splits sum.splits)
  from reduce_status_keys [OF this assms(2) assms(3)] show ?thesis
    by (simp add: empty_object_def)
qed

theorem report_keys_witness:
  "fst (check (example_env None) [(''c'', ''^1.0.0''), (''d'', ''^2.0.0'')] (Some both_scopes))
     = Inr \<lparr>props = [(''c'', JUndefined), (''d'', JUndefined)], proto = ObjectPrototype\<rparr>
   \<and> distinct (map fst [(''c'', ''^1.0.0''), (''d'', ''^2.0.0'')])
   \<and> ''__proto__'' \<notin> set (map fst [(''c'', ''^1.0.0''), (''d'', ''^2.0.0'')])
   \<and> map fst (props \<lparr>props = [(''c'', JUndefined), (''d'', JUndefined)], proto = ObjectPrototype\<rparr>)
       = map fst [(''c'', ''^1.0.0''), (''d'', ''^2.0.0'')]"
proof -
  have h: "fst (check (example_env None) [(''c'', ''^1.0.0''), (''d'', ''^2.0.0'')] (Some both_scopes))
     = Inr \<lparr>props = [(''c'', JUndefined), (''d'', JUndefined)], proto = ObjectPrototype\<rparr>"
    by (simp add: example_check_simps)
  have d: "distinct (map fst [(''c'', ''^1.0.0''), (''d'', ''^2.0.0'')])" by simp
  have p: "''__proto__'' \<notin> set (map fst [(''c'', ''^1.0.0''), (''d'', ''^2.0.0'')])" by simp
  from report_keys [OF h d p] h d p show ?thesis by simp
qed

text \<open>
  Claim C10: when the field \<open>devDependencies\<close> or \<open>dependencies\<close> of the manifest is
  absent or not of object type, \<open>check\<close> raises no error on its account: the merge
  succeeds, the merged map is the one built without that scope, and \<open>check\<close> behaves
  as if the scope had not been requested.
\<close>

theorem malformed_field_skipped:
  assumes "findPackageJson env (startDir opts) = (Some pkgJson, t)"
    and "read_manifest env pkgJson = Inr fileJson"
    and "manifest_field fileJson f = Inr v"
    and "typeof v \<noteq> ''object''"
  shows "(\<exists>deps. merge_deps opts fileJson = Inr deps
            \<and> check env packages (Some opts) =
                (reduce_status env deps empty_object (map fst packages), t @ [ReadFile pkgJson]))
     \<and> merge_deps opts fileJson = merge_deps (without f opts) fileJson
     \<and> check env packages (Some opts) = check env packages (Some (without f opts))"
proof -
  have eq: "merge_deps opts fileJson = merge_deps (without f opts) fileJson"
    using merge_field_skips [OF assms(3,4)] merge_field_defined [OF assms(3)]
    by (cases f) (auto simp: merge_deps_def merge_field_def split: sum.splits)
  obtain d where d: "merge_field (devDependencies opts) fileJson DevDependencies empty_object = Inr d"
    using merge_field_defined [OF assms(3)] by blast
  obtain deps where "merge_field (dependencies opts) fileJson Dependencies d = Inr deps"
    using merge_field_defined [OF assms(3)] by blast
  with d have ex: "merge_deps opts fileJson = Inr deps" by (simp add: merge_deps_def)
  have st: "startDir (without f opts) = startDir opts" by (cases f) simp_all
  have c: "check env packages (Some opts) =
      (reduce_status env deps empty_object (map fst packages), t @ [ReadFile pkgJson])"
    using assms(1,2) ex by (simp add: check_def)
  have c': "check env packages (Some (without f opts)) =
      (reduce_status env deps empty_object (map fst packages), t @ [ReadFile pkgJson])"
    using assms(1,2) ex eq st by (simp add: check_def)
  from ex c c' eq show ?thesis by simp
qed

theorem malformed_field_skipped_witness:
  "findPackageJson malformed_env (startDir both_scopes) =
     (Some [''project'', ''package.json''], [ShellTest [''project'', ''package.json'']])
   \<and> read_manifest malformed_env [''project'', ''package.json''] = Inr malformed_manifest
   \<and> manifest_field malformed_manifest DevDependencies = Inr (JStr ''none'')
   \<and> typeof (JStr ''none'') \<noteq> ''object''
   \<and> merge_deps both_scopes malformed_manifest =
       Inr \<lparr>props = [(''a'', JStr ''^1.0.0'')], proto = ObjectPrototype\<rparr>
   \<and> check malformed_env [(''c'', ''^1.0.0'')] (Some both_scopes) =
       check malformed_env [(''c'', ''^1.0.0'')] (Some (without DevDependencies both_scopes))"
proof -
  have f: "findPackageJson malformed_env (startDir both_scopes) =
     (Some [''project'', ''package.json''], [ShellTest [''project'', ''package.json'']])"
    by (simp add: example_path_simps both_scopes_def malformed_env_def)
  have r: "read_manifest malformed_env [''project'', ''package.json''] = Inr malformed_manifest"
    by (simp add: read_manifest_def malformed_env_def make_env_def)
  have m: "manifest_field malformed_manifest DevDependencies = Inr (JStr ''none'')"
    by (simp add: manifest_field_def malformed_manifest_def)
  have t: "typeof (JStr ''none'') \<noteq> ''object''" by simp
  have d: "merge_deps both_scopes malformed_manifest =
       Inr \<lparr>props = [(''a'', JStr ''^1.0.0'')], proto = ObjectPrototype\<rparr>"
    by (simp add: both_scopes_def malformed_manifest_def merge_deps_def merge_field_def
        manifest_field_def Object_assign_def js_set_def reaches_proto_accessor_def empty_object_def)
  have c: "check malformed_env [(''c'', ''^1.0.0'')] (Some both_scopes) =
       check malformed_env [(''c'', ''^1.0.0'')] (Some (without DevDependencies both_scopes))"
    using malformed_field_skipped [OF f r m t, of "[(''c'', ''^1.0.0'')]"] by blast
  from f r m t d c show ?thesis by blast
qed

end
